theory Spec2Isabelle
  imports Main "HOL-Library.Char_ord" "HOL-Library.List_Lexorder"
begin

section \<open>The default generator of jsonschema\_mdit\<close>

text \<open>
  A shallow embedding of the class \<open>DefaultGenerator\<close> of
  \<^verbatim>\<open>src/jsonschema_mdit/generator/default.py\<close>. Python names that start with an
  underscore are written with the prefix \<open>p_\<close> (\<^verbatim>\<open>_make_tag\<close> is \<open>p_make_tag\<close>,
  the attribute \<^verbatim>\<open>_schema\<close> is the field \<open>p_schema\<close>); names without one are kept
  (\<^verbatim>\<open>tab_const\<close>, \<^verbatim>\<open>generate_schema\<close>). An exception is a value \<open>Inl e\<close> of a sum.
\<close>

subsection \<open>JSON values\<close>

text \<open>
  A schema is a Python \<^verbatim>\<open>dict\<close> of JSON values. A \<^verbatim>\<open>dict\<close> is an association list
  with distinct keys, in insertion order. Floating-point numbers are left out of the
  model; characters are the code points below 256.
\<close>

datatype json =
    JNull
  | JBool bool
  | JInt int
  | JStr string
  | JList "json list"
  | JDict "(string \<times> json) list"

type_synonym pydict = "(string \<times> json) list"

text \<open>
  What is applied to a value can also be a function object: the badge rules pass
  lambdas around, and one of them ends up as the argument of \<^verbatim>\<open>len\<close>.
\<close>

datatype pyobj = PJson json | PFunction

datatype error =
    AttributeError string
  | NameError string
  | TypeError
  | ValueError string
  | KeyError string
  | Unmodelled

text \<open>
  \<open>AttributeError n\<close> and \<open>NameError n\<close> carry the attribute or the name that was not
  found, \<open>ValueError m\<close> the message of the \<^verbatim>\<open>raise\<close>. \<open>Unmodelled\<close> marks a value whose
  shape JSON Schema does not allow for its keyword, at a place where the model does not
  follow what Python does with it.
\<close>

fun bind_e :: "error + 'a \<Rightarrow> ('a \<Rightarrow> error + 'b) \<Rightarrow> error + 'b" where
  "bind_e (Inl e) f = Inl e"
| "bind_e (Inr x) f = f x"

subsection \<open>Python primitives\<close>

text \<open>Truth value testing (\<^verbatim>\<open>if x\<close>, \<^verbatim>\<open>not x\<close>, \<^verbatim>\<open>x or y\<close>).\<close>

fun truthy :: "json \<Rightarrow> bool" where
  "truthy JNull = False"
| "truthy (JBool b) = b"
| "truthy (JInt n) = (n \<noteq> 0)"
| "truthy (JStr s) = (s \<noteq> [])"
| "truthy (JList xs) = (xs \<noteq> [])"
| "truthy (JDict kvs) = (kvs \<noteq> [])"

text \<open>\<^verbatim>\<open>d.get(key)\<close>, with \<^verbatim>\<open>None\<close> for a missing key, and \<^verbatim>\<open>d.get(key, default)\<close>.\<close>

definition dict_get :: "pydict \<Rightarrow> string \<Rightarrow> json" where
  "dict_get d k = (case map_of d k of None \<Rightarrow> JNull | Some v \<Rightarrow> v)"

definition dict_get_default :: "pydict \<Rightarrow> string \<Rightarrow> json \<Rightarrow> json" where
  "dict_get_default d k dflt = (case map_of d k of None \<Rightarrow> dflt | Some v \<Rightarrow> v)"

text \<open>\<^verbatim>\<open>key in d\<close>.\<close>

definition dict_contains :: "pydict \<Rightarrow> string \<Rightarrow> bool" where
  "dict_contains d k = (map_of d k \<noteq> None)"

text \<open>
  \<^verbatim>\<open>d | e\<close>: the entries of \<open>d\<close> in their order, a key of \<open>e\<close> that \<open>d\<close> has taking
  the value of \<open>e\<close> in place, the other entries of \<open>e\<close> appended.
\<close>

fun dict_set :: "pydict \<Rightarrow> string \<Rightarrow> json \<Rightarrow> pydict" where
  "dict_set [] k v = [(k, v)]"
| "dict_set ((k', v') # d) k v = (if k' = k then (k, v) # d else (k', v') # dict_set d k v)"

fun dict_or :: "pydict \<Rightarrow> pydict \<Rightarrow> pydict" where
  "dict_or d [] = d"
| "dict_or d ((k, v) # e) = dict_or (dict_set d k v) e"

text \<open>
  \<^verbatim>\<open>str(n)\<close> of an integer: its decimal digits, most significant first, after a
  minus sign when it is negative. The digits are collected from the last one.
\<close>

definition digit_char :: "nat \<Rightarrow> char" where
  "digit_char d = char_of (of_char CHR ''0'' + d)"

fun decimal_digits :: "nat \<Rightarrow> string \<Rightarrow> string" where
  "decimal_digits n acc =
     (if n < 10 then digit_char n # acc
      else decimal_digits (n div 10) (digit_char (n mod 10) # acc))"

definition py_str_int :: "int \<Rightarrow> string" where
  "py_str_int i =
     (if i < 0 then CHR ''-'' # decimal_digits (nat (- i)) [] else decimal_digits (nat i) [])"

text \<open>\<^verbatim>\<open>sep.join(parts)\<close> of strings.\<close>

fun join_str :: "string \<Rightarrow> string list \<Rightarrow> string" where
  "join_str sep [] = []"
| "join_str sep [s] = s"
| "join_str sep (s # t # ts) = s @ sep @ join_str sep (t # ts)"

text \<open>
  \<^verbatim>\<open>repr(s)\<close> of a string: double quotes when the text has a single quote and no
  double quote, single quotes otherwise; the quote and the backslash escaped, tab,
  newline and carriage return by their letters, any other character that is not
  printable as \<^verbatim>\<open>\xhh\<close>.
\<close>

definition py_printable :: "char \<Rightarrow> bool" where
  "py_printable c =
     (let n = (of_char c :: nat) in (32 \<le> n \<and> n < 127) \<or> (161 \<le> n \<and> n \<noteq> 173))"

definition hex_digit :: "nat \<Rightarrow> char" where
  "hex_digit n = (if n < 10 then char_of (48 + n) else char_of (87 + n))"

definition escape_char :: "char \<Rightarrow> char \<Rightarrow> string" where
  "escape_char q c =
     (if c = q \<or> c = CHR 0x5C then [CHR 0x5C, c]
      else if c = CHR 0x09 then [CHR 0x5C, CHR ''t'']
      else if c = CHR 0x0A then [CHR 0x5C, CHR ''n'']
      else if c = CHR 0x0D then [CHR 0x5C, CHR ''r'']
      else if py_printable c then [c]
      else [CHR 0x5C, CHR ''x'', hex_digit ((of_char c :: nat) div 16),
            hex_digit ((of_char c :: nat) mod 16)])"

definition repr_str :: "string \<Rightarrow> string" where
  "repr_str s =
     (let q = (if CHR 0x27 \<in> set s \<and> CHR 0x22 \<notin> set s then CHR 0x22 else CHR 0x27)
      in [q] @ concat (map (escape_char q) s) @ [q])"

fun py_repr :: "json \<Rightarrow> string" where
  "py_repr JNull = ''None''"
| "py_repr (JBool b) = (if b then ''True'' else ''False'')"
| "py_repr (JInt n) = py_str_int n"
| "py_repr (JStr s) = repr_str s"
| "py_repr (JList xs) = ''['' @ join_str '', '' (map py_repr xs) @ '']''"
| "py_repr (JDict kvs) =
     ''{'' @ join_str '', '' (map (\<lambda>(k, v). repr_str k @ '': '' @ py_repr v) kvs) @ ''}''"

text \<open>\<^verbatim>\<open>str(v)\<close>, which is also what an f-string writes for \<^verbatim>\<open>{v}\<close>.\<close>

fun py_str :: "json \<Rightarrow> string" where
  "py_str (JStr s) = s"
| "py_str v = py_repr v"

text \<open>\<^verbatim>\<open>len(x)\<close>: a string, a list and a dict have a length, nothing else has.\<close>

fun py_len :: "pyobj \<Rightarrow> error + int" where
  "py_len (PJson (JStr s)) = Inr (int (length s))"
| "py_len (PJson (JList xs)) = Inr (int (length xs))"
| "py_len (PJson (JDict kvs)) = Inr (int (length kvs))"
| "py_len _ = Inl TypeError"

text \<open>\<^verbatim>\<open>sep.join(xs)\<close> of a list of values: every item has to be a string.\<close>

fun py_join :: "string \<Rightarrow> json list \<Rightarrow> error + string" where
  "py_join sep [] = Inr []"
| "py_join sep [JStr s] = Inr s"
| "py_join sep (JStr s # x # xs) = bind_e (py_join sep (x # xs)) (\<lambda>r. Inr (s @ sep @ r))"
| "py_join sep _ = Inl TypeError"

text \<open>\<^verbatim>\<open>s.strip()\<close>.\<close>

definition py_isspace :: "char \<Rightarrow> bool" where
  "py_isspace c =
     (let n = (of_char c :: nat)
      in (9 \<le> n \<and> n \<le> 13) \<or> (28 \<le> n \<and> n \<le> 32) \<or> n = 133 \<or> n = 160)"

definition py_strip :: "string \<Rightarrow> string" where
  "py_strip s = rev (dropWhile py_isspace (rev (dropWhile py_isspace s)))"

subsection \<open>Keywords\<close>

text \<open>
  Modelled from the spec: the module \<^verbatim>\<open>jsonschema_mdit.meta\<close>, whose class \<^verbatim>\<open>Key\<close>
  names the keywords, is not among the sources. The spec gives the keywords by their
  JSON Schema names; each constant of \<^verbatim>\<open>Key\<close> is that name as a string.
\<close>

abbreviation (input) Key_DEPRECATED :: string where "Key_DEPRECATED \<equiv> ''deprecated''"
abbreviation (input) Key_READ_ONLY :: string where "Key_READ_ONLY \<equiv> ''readOnly''"
abbreviation (input) Key_WRITE_ONLY :: string where "Key_WRITE_ONLY \<equiv> ''writeOnly''"
abbreviation (input) Key_TYPE :: string where "Key_TYPE \<equiv> ''type''"
abbreviation (input) Key_FORMAT :: string where "Key_FORMAT \<equiv> ''format''"
abbreviation (input) Key_CONTENT_MEDIA_TYPE :: string where
  "Key_CONTENT_MEDIA_TYPE \<equiv> ''contentMediaType''"
abbreviation (input) Key_CONTENT_ENCODING :: string where
  "Key_CONTENT_ENCODING \<equiv> ''contentEncoding''"
abbreviation (input) Key_MIN_LENGTH :: string where "Key_MIN_LENGTH \<equiv> ''minLength''"
abbreviation (input) Key_MAX_LENGTH :: string where "Key_MAX_LENGTH \<equiv> ''maxLength''"
abbreviation (input) Key_MINIMUM :: string where "Key_MINIMUM \<equiv> ''minimum''"
abbreviation (input) Key_EXCLUSIVE_MINIMUM :: string where
  "Key_EXCLUSIVE_MINIMUM \<equiv> ''exclusiveMinimum''"
abbreviation (input) Key_MAXIMUM :: string where "Key_MAXIMUM \<equiv> ''maximum''"
abbreviation (input) Key_EXCLUSIVE_MAXIMUM :: string where
  "Key_EXCLUSIVE_MAXIMUM \<equiv> ''exclusiveMaximum''"
abbreviation (input) Key_MULTIPLE_OF :: string where "Key_MULTIPLE_OF \<equiv> ''multipleOf''"
abbreviation (input) Key_MIN_ITEMS :: string where "Key_MIN_ITEMS \<equiv> ''minItems''"
abbreviation (input) Key_MAX_ITEMS :: string where "Key_MAX_ITEMS \<equiv> ''maxItems''"
abbreviation (input) Key_MIN_CONTAINS :: string where "Key_MIN_CONTAINS \<equiv> ''minContains''"
abbreviation (input) Key_MAX_CONTAINS :: string where "Key_MAX_CONTAINS \<equiv> ''maxContains''"
abbreviation (input) Key_UNIQUE_ITEMS :: string where "Key_UNIQUE_ITEMS \<equiv> ''uniqueItems''"
abbreviation (input) Key_UNEVALUATED_ITEMS :: string where
  "Key_UNEVALUATED_ITEMS \<equiv> ''unevaluatedItems''"
abbreviation (input) Key_MIN_PROPERTIES :: string where
  "Key_MIN_PROPERTIES \<equiv> ''minProperties''"
abbreviation (input) Key_MAX_PROPERTIES :: string where
  "Key_MAX_PROPERTIES \<equiv> ''maxProperties''"
abbreviation (input) Key_UNEVALUATED_PROPERTIES :: string where
  "Key_UNEVALUATED_PROPERTIES \<equiv> ''unevaluatedProperties''"
abbreviation (input) Key_DEFAULT :: string where "Key_DEFAULT \<equiv> ''default''"
abbreviation (input) Key_REQUIRED :: string where "Key_REQUIRED \<equiv> ''required''"
abbreviation (input) Key_DEPENDENT_REQUIRED :: string where
  "Key_DEPENDENT_REQUIRED \<equiv> ''dependentRequired''"
abbreviation (input) Key_CONST :: string where "Key_CONST \<equiv> ''const''"
abbreviation (input) Key_PATTERN :: string where "Key_PATTERN \<equiv> ''pattern''"
abbreviation (input) Key_ENUM :: string where "Key_ENUM \<equiv> ''enum''"
abbreviation (input) Key_EXAMPLES :: string where "Key_EXAMPLES \<equiv> ''examples''"
abbreviation (input) Key_CONTENT_SCHEMA :: string where
  "Key_CONTENT_SCHEMA \<equiv> ''contentSchema''"
abbreviation (input) Key_PREFIX_ITEMS :: string where "Key_PREFIX_ITEMS \<equiv> ''prefixItems''"
abbreviation (input) Key_ITEMS :: string where "Key_ITEMS \<equiv> ''items''"
abbreviation (input) Key_CONTAINS :: string where "Key_CONTAINS \<equiv> ''contains''"
abbreviation (input) Key_PROPERTIES :: string where "Key_PROPERTIES \<equiv> ''properties''"
abbreviation (input) Key_PATTERN_PROPERTIES :: string where
  "Key_PATTERN_PROPERTIES \<equiv> ''patternProperties''"
abbreviation (input) Key_ADDITIONAL_PROPERTIES :: string where
  "Key_ADDITIONAL_PROPERTIES \<equiv> ''additionalProperties''"
abbreviation (input) Key_PROPERTY_NAMES :: string where
  "Key_PROPERTY_NAMES \<equiv> ''propertyNames''"
abbreviation (input) Key_DEPENDENT_SCHEMAS :: string where
  "Key_DEPENDENT_SCHEMAS \<equiv> ''dependentSchemas''"
abbreviation (input) Key_ALL_OF :: string where "Key_ALL_OF \<equiv> ''allOf''"
abbreviation (input) Key_ONE_OF :: string where "Key_ONE_OF \<equiv> ''oneOf''"
abbreviation (input) Key_ANY_OF :: string where "Key_ANY_OF \<equiv> ''anyOf''"
abbreviation (input) Key_NOT :: string where "Key_NOT \<equiv> ''not''"
abbreviation (input) Key_IF :: string where "Key_IF \<equiv> ''if''"
abbreviation (input) Key_REF :: string where "Key_REF \<equiv> ''$ref''"
abbreviation (input) Key_ID :: string where "Key_ID \<equiv> ''$id''"
abbreviation (input) Key_DEFS :: string where "Key_DEFS \<equiv> ''$defs''"
abbreviation (input) Key_SUMMARY :: string where "Key_SUMMARY \<equiv> ''summary''"
abbreviation (input) Key_DESCRIPTION :: string where "Key_DESCRIPTION \<equiv> ''description''"

subsection \<open>The generator object\<close>

text \<open>
  The fields are the attributes \<^verbatim>\<open>__init__\<close> assigns, in its order: the configuration
  first, then the four attributes a call of \<^verbatim>\<open>generate_schema\<close> overwrites. The
  callables of the configuration are functions; \<open>p_value_code_gen\<close> may give back
  something that is not a string, as the constructor's default does (it returns the
  serialising function instead of calling it). A registry answers a reference with the
  contents of the schema it names or with an error; a registry that is given counts as true.
  The last two fields are the functions of the string library \<^verbatim>\<open>pylinks\<close> the class
  calls, \<^verbatim>\<open>_pl.string.camel_to_snake\<close> and \<^verbatim>\<open>_pl.string.to_slug\<close>: the library is not
  part of the repository, and nothing is assumed of them.
\<close>

record generator =
  p_registry :: "(json \<Rightarrow> error + pydict) option"
  p_key_title_gen :: "string \<Rightarrow> string"
  p_value_code_gen :: "json \<Rightarrow> error + pyobj"
  p_value_code_language :: string
  p_ref_tag_gen :: "pydict \<Rightarrow> error + string"
  p_ref_name_gen :: "pydict \<Rightarrow> error + json"
  p_keyword_title_prefix :: string
  p_keyword_title_suffix :: string
  p_keyword_description_prefix :: string
  p_keyword_description_suffix :: string
  p_class_prefix :: string
  p_badge_permissive :: pydict
  p_badge_restrictive :: pydict
  p_ref_tag_prefix :: string
  p_badges_header_default :: pydict
  p_badges_inline_default :: pydict
  p_badge_default :: "(string \<times> pydict) list"
  p_schema :: pydict
  p_schema_jsonpath :: string
  p_schema_tag_prefix :: string
  p_instance_jsonpath :: string
  camel_to_snake :: "string \<Rightarrow> string"
  to_slug :: "string \<Rightarrow> string"

text \<open>
  The names of the instance attributes (lines 49 to 96 of the source). An instance
  attribute hides a method of the same name: \<^verbatim>\<open>self._badge_default\<close> is the
  dictionary of per-keyword badge settings, not the method \<^verbatim>\<open>_badge_default\<close>.
\<close>

definition instance_attributes :: "string list" where
  "instance_attributes =
     [''_registry'', ''_key_title_gen'', ''_value_code_gen'', ''_value_code_language'',
      ''_ref_tag_gen'', ''_ref_name_gen'', ''_keyword_title_prefix'',
      ''_keyword_title_suffix'', ''_keyword_description_prefix'',
      ''_keyword_description_suffix'', ''_class_prefix'', ''_badge_permissive'',
      ''_badge_restrictive'', ''_ref_tag_prefix'', ''_badges_header_default'',
      ''_badges_inline_default'', ''_badge_default'', ''_schema'', ''_schema_jsonpath'',
      ''_schema_tag_prefix'', ''_instance_jsonpath'']"

text \<open>
  The per-keyword badge settings \<^verbatim>\<open>__init__\<close> merges into \<^verbatim>\<open>self._badge_default\<close>
  (lines 77 to 91). With the constructor's default \<^verbatim>\<open>badge=None\<close> the attribute starts
  empty and the merge leaves it with these entries.
\<close>

definition badge_default_table :: "(string \<times> pydict) list" where
  "badge_default_table =
     [(Key_TYPE, [(''label'', JStr ''Type'')]),
      (Key_ID, [(''label'', JStr ''ID'')]),
      (Key_REF, [(''label'', JStr ''Ref'')]),
      (Key_DEFS, [(''label'', JStr ''Defs'')]),
      (Key_ALL_OF, [(''label'', JStr ''All Of'')]),
      (Key_ANY_OF, [(''label'', JStr ''Any Of'')]),
      (Key_REQUIRED, [(''color'', JStr ''#AF1F10'')]),
      (Key_DEPRECATED, [(''color'', JStr ''#AF1F10'')]),
      (Key_READ_ONLY, [(''color'', JStr ''#D93402'')]),
      (Key_WRITE_ONLY, [(''color'', JStr ''#D93402'')])]"

subsection \<open>Naming helpers\<close>

definition p_get_description_key :: "generator \<Rightarrow> string \<Rightarrow> string" where
  "p_get_description_key g key =
     p_keyword_description_prefix g @ key @ p_keyword_description_suffix g"

definition p_get_title_key :: "generator \<Rightarrow> string \<Rightarrow> string" where
  "p_get_title_key g key = p_keyword_title_prefix g @ key @ p_keyword_title_suffix g"

definition p_make_class_name :: "generator \<Rightarrow> string list \<Rightarrow> string" where
  "p_make_class_name g parts = to_slug g (p_class_prefix g @ join_str ''-'' parts)"

definition p_make_tag :: "generator \<Rightarrow> string list \<Rightarrow> string" where
  "p_make_tag g parts =
     to_slug g (p_schema_tag_prefix g @ ''-'' @ p_schema_jsonpath g @ ''-'' @ join_str ''-'' parts)"

subsection \<open>Badges\<close>

text \<open>
  \<^verbatim>\<open>_make_badge_kwargs\<close>: the keyword arguments of one badge, a dictionary. The style
  \<open>config\<close> is merged over the five entries, the per-keyword settings over both.
\<close>

definition p_make_badge_kwargs ::
  "generator \<Rightarrow> string \<Rightarrow> json \<Rightarrow> string \<Rightarrow> json \<Rightarrow> json \<Rightarrow> pydict option \<Rightarrow> pydict" where
  "p_make_badge_kwargs g key message label link title config =
     dict_or
       (dict_or
          [(''label'', JStr (if label \<noteq> [] then label else p_key_title_gen g key)),
           (''args'', JDict [(''message'', JStr (py_str message))]),
           (''alt'', if label \<noteq> [] then JStr (label @ '': '' @ py_str message) else message),
           (''link'', link),
           (''title'', title)]
          (case config of None \<Rightarrow> [] | Some c \<Rightarrow> c))
       (case map_of (p_badge_default g) key of None \<Rightarrow> [] | Some d \<Rightarrow> d)"

text \<open>
  An argument that the source takes as a string or as a callable, and the objects the
  variable \<^verbatim>\<open>message\<close> of \<^verbatim>\<open>_make_keyword_badge_kwargs\<close> can hold: a string, a
  callable, or a value that is neither (the integer \<^verbatim>\<open>len\<close> returns).
\<close>

datatype 'f str_or_fun = IsStr string | IsFun 'f

datatype msg_obj = MStr string | MFun "pyobj \<Rightarrow> error + string" | MOther json

fun arg_truthy :: "'f str_or_fun option \<Rightarrow> bool" where
  "arg_truthy None = False"
| "arg_truthy (Some (IsStr s)) = (s \<noteq> [])"
| "arg_truthy (Some (IsFun f)) = True"

fun title_obj :: "(json \<Rightarrow> error + string) str_or_fun option \<Rightarrow> pyobj" where
  "title_obj None = PJson JNull"
| "title_obj (Some (IsStr s)) = PJson (JStr s)"
| "title_obj (Some (IsFun f)) = PFunction"

text \<open>The default of the parameter \<^verbatim>\<open>message_complex\<close>: \<^verbatim>\<open>lambda value: len(value)\<close>.\<close>

definition message_complex_default :: "(json \<Rightarrow> error + json) str_or_fun" where
  "message_complex_default = IsFun (\<lambda>value. bind_e (py_len (PJson value)) (\<lambda>n. Inr (JInt n)))"

text \<open>
  \<^verbatim>\<open>_make_keyword_badge_kwargs\<close>. The parameters are in the order of the source: key,
  message, value, true\_is\_permissive, message\_complex, title, link. The arguments of
  the final call are evaluated in their order, so an error of the message comes before
  one of the title; the default of \<^verbatim>\<open>self._schema.get(title_key, default)\<close> is computed
  whether the schema has the title key or not.
\<close>

definition p_make_keyword_badge_kwargs ::
  "generator \<Rightarrow> string \<Rightarrow> (pyobj \<Rightarrow> error + string) str_or_fun option \<Rightarrow> json option \<Rightarrow> bool \<Rightarrow>
   (json \<Rightarrow> error + json) str_or_fun \<Rightarrow> (json \<Rightarrow> error + string) str_or_fun option \<Rightarrow>
   (json \<Rightarrow> json) str_or_fun option \<Rightarrow> error + pydict option" where
  "p_make_keyword_badge_kwargs g key message value_arg true_is_permissive message_complex title link =
     (case map_of (p_schema g) key of
        None \<Rightarrow> Inr None
      | Some schema_value \<Rightarrow>
          (let value = (case value_arg of Some v \<Rightarrow> v | None \<Rightarrow> schema_value);
               badge_config =
                 (if arg_truthy message then None
                  else case value of
                         JBool b \<Rightarrow>
                           Some (if b = true_is_permissive then p_badge_permissive g
                                 else p_badge_restrictive g)
                       | _ \<Rightarrow> None);
               message' =
                 (case message of
                    Some (IsFun f) \<Rightarrow> Inr (MFun f)
                  | Some (IsStr s) \<Rightarrow>
                      (if s \<noteq> [] then Inr (MStr s)
                       else case value of
                         JBool b \<Rightarrow> Inr (MStr (if b then ''true'' else ''false''))
                       | JList xs \<Rightarrow> bind_e (py_join '' | '' xs) (\<lambda>s. Inr (MStr s))
                       | JInt n \<Rightarrow> Inr (MStr (py_str value))
                       | JStr s \<Rightarrow> Inr (MStr (py_str value))
                       | _ \<Rightarrow>
                           (case message_complex of
                              IsStr s \<Rightarrow> Inr (MStr s)
                            | IsFun f \<Rightarrow>
                                bind_e (f value)
                                  (\<lambda>r. Inr (case r of JStr s \<Rightarrow> MStr s | _ \<Rightarrow> MOther r))))
                  | None \<Rightarrow>
                      (case value of
                         JBool b \<Rightarrow> Inr (MStr (if b then ''true'' else ''false''))
                       | JList xs \<Rightarrow> bind_e (py_join '' | '' xs) (\<lambda>s. Inr (MStr s))
                       | JInt n \<Rightarrow> Inr (MStr (py_str value))
                       | JStr s \<Rightarrow> Inr (MStr (py_str value))
                       | _ \<Rightarrow>
                           (case message_complex of
                              IsStr s \<Rightarrow> Inr (MStr s)
                            | IsFun f \<Rightarrow>
                                bind_e (f value)
                                  (\<lambda>r. Inr (case r of JStr s \<Rightarrow> MStr s | _ \<Rightarrow> MOther r)))))
           in bind_e message' (\<lambda>m.
              bind_e (case m of
                        MStr s \<Rightarrow> Inr s
                      | MFun f \<Rightarrow> f (title_obj title)
                      | MOther r \<Rightarrow> Inl TypeError) (\<lambda>message_str.
              bind_e (case title of
                        None \<Rightarrow> Inr JNull
                      | Some (IsStr s) \<Rightarrow> Inr (JStr s)
                      | Some (IsFun f) \<Rightarrow> bind_e (f value) (\<lambda>s. Inr (JStr s))) (\<lambda>title_default.
              Inr (Some (p_make_badge_kwargs g key (JStr message_str) []
                     (case link of
                        None \<Rightarrow> JNull
                      | Some (IsStr s) \<Rightarrow> JStr s
                      | Some (IsFun f) \<Rightarrow> f value)
                     (dict_get_default (p_schema g) (p_get_title_key g key) title_default)
                     badge_config)))))))"

subsection \<open>The badge rules\<close>

text \<open>
  One definition per method \<^verbatim>\<open>_badge_...\<close>, in the order of the source. A title that
  is a lambda with an f-string is a function of the value.
\<close>

definition p_badge_deprecated :: "generator \<Rightarrow> error + pydict option" where
  "p_badge_deprecated g =
     p_make_keyword_badge_kwargs g Key_DEPRECATED None None False message_complex_default
       (Some (IsFun (\<lambda>value. Inr (''This value is '' @ (if truthy value then [] else ''not '') @ ''deprecated.'')))) None"

definition p_badge_read_only :: "generator \<Rightarrow> error + pydict option" where
  "p_badge_read_only g =
     p_make_keyword_badge_kwargs g Key_READ_ONLY None None False message_complex_default
       (Some (IsFun (\<lambda>value. Inr (''This value is '' @ (if truthy value then [] else ''not '') @ ''read-only.'')))) None"

definition p_badge_write_only :: "generator \<Rightarrow> error + pydict option" where
  "p_badge_write_only g =
     p_make_keyword_badge_kwargs g Key_WRITE_ONLY None None False message_complex_default
       (Some (IsFun (\<lambda>value. Inr (''This value is '' @ (if truthy value then [] else ''not '') @ ''write-only.'')))) None"

definition p_badge_type :: "generator \<Rightarrow> error + pydict option" where
  "p_badge_type g =
     p_make_keyword_badge_kwargs g Key_TYPE None None False message_complex_default
       (Some (IsFun (\<lambda>value.
          case value of
            JList xs \<Rightarrow>
              bind_e (py_join '', '' xs)
                (\<lambda>s. Inr (''This value must have one of the following data types: '' @ s @ ''.''))
          | _ \<Rightarrow> Inr (''This value must be of type '' @ py_str value @ ''.''))))
       None"

definition p_badge_format :: "generator \<Rightarrow> error + pydict option" where
  "p_badge_format g =
     p_make_keyword_badge_kwargs g Key_FORMAT None None False message_complex_default
       (Some (IsFun (\<lambda>value. Inr (''This value must be a string with '' @ [CHR 0x27] @ py_str value @ [CHR 0x27] @ '' format.'')))) None"

definition p_badge_content_media_type :: "generator \<Rightarrow> error + pydict option" where
  "p_badge_content_media_type g =
     p_make_keyword_badge_kwargs g Key_CONTENT_MEDIA_TYPE None None False message_complex_default
       (Some (IsFun (\<lambda>value. Inr (''This value must be a string with '' @ [CHR 0x27] @ py_str value @ [CHR 0x27] @ '' MIME type.'')))) None"

definition p_badge_content_encoding :: "generator \<Rightarrow> error + pydict option" where
  "p_badge_content_encoding g =
     p_make_keyword_badge_kwargs g Key_CONTENT_ENCODING None None False message_complex_default
       (Some (IsFun (\<lambda>value. Inr (''This value must be a string with '' @ [CHR 0x27] @ py_str value @ [CHR 0x27] @ '' encoding.'')))) None"

definition p_badge_min_length :: "generator \<Rightarrow> error + pydict option" where
  "p_badge_min_length g =
     p_make_keyword_badge_kwargs g Key_MIN_LENGTH None None False message_complex_default
       (Some (IsFun (\<lambda>value. Inr (''This value must be a string with a minimum length of '' @ py_str value @ ''.'')))) None"

definition p_badge_max_length :: "generator \<Rightarrow> error + pydict option" where
  "p_badge_max_length g =
     p_make_keyword_badge_kwargs g Key_MAX_LENGTH None None False message_complex_default
       (Some (IsFun (\<lambda>value. Inr (''This value must be a string with a maximum length of '' @ py_str value @ ''.'')))) None"

definition p_badge_minimum :: "generator \<Rightarrow> error + pydict option" where
  "p_badge_minimum g =
     p_make_keyword_badge_kwargs g Key_MINIMUM None None False message_complex_default
       (Some (IsFun (\<lambda>value. Inr (''This value must be greater than or equal to '' @ py_str value @ ''.'')))) None"

definition p_badge_exclusive_minimum :: "generator \<Rightarrow> error + pydict option" where
  "p_badge_exclusive_minimum g =
     p_make_keyword_badge_kwargs g Key_EXCLUSIVE_MINIMUM None None False message_complex_default
       (Some (IsFun (\<lambda>value. Inr (''This value must be greater than '' @ py_str value @ ''.'')))) None"

text \<open>The source passes \<^verbatim>\<open>key=_meta.Key.MAX_LENGTH\<close> here (line 369).\<close>

definition p_badge_maximum :: "generator \<Rightarrow> error + pydict option" where
  "p_badge_maximum g =
     p_make_keyword_badge_kwargs g Key_MAX_LENGTH None None False message_complex_default
       (Some (IsFun (\<lambda>value. Inr (''This value must be smaller than or equal to '' @ py_str value @ ''.'')))) None"

definition p_badge_exclusive_maximum :: "generator \<Rightarrow> error + pydict option" where
  "p_badge_exclusive_maximum g =
     p_make_keyword_badge_kwargs g Key_EXCLUSIVE_MAXIMUM None None False message_complex_default
       (Some (IsFun (\<lambda>value. Inr (''This value must be smaller than '' @ py_str value @ ''.'')))) None"

definition p_badge_multiple_of :: "generator \<Rightarrow> error + pydict option" where
  "p_badge_multiple_of g =
     p_make_keyword_badge_kwargs g Key_MULTIPLE_OF None None False message_complex_default
       (Some (IsFun (\<lambda>value. Inr (''This value must be a multiple of '' @ py_str value @ ''.'')))) None"

definition p_badge_min_items :: "generator \<Rightarrow> error + pydict option" where
  "p_badge_min_items g =
     p_make_keyword_badge_kwargs g Key_MIN_ITEMS None None False message_complex_default
       (Some (IsFun (\<lambda>value. Inr (''This array must contain '' @ py_str value @ '' or more elements.'')))) None"

definition p_badge_max_items :: "generator \<Rightarrow> error + pydict option" where
  "p_badge_max_items g =
     p_make_keyword_badge_kwargs g Key_MAX_ITEMS None None False message_complex_default
       (Some (IsFun (\<lambda>value. Inr (''This array must contain '' @ py_str value @ '' or less elements.'')))) None"

definition p_badge_min_contains :: "generator \<Rightarrow> error + pydict option" where
  "p_badge_min_contains g =
     p_make_keyword_badge_kwargs g Key_MIN_CONTAINS None None False message_complex_default
       (Some (IsFun (\<lambda>value. Inr (''This array must contain '' @ py_str value @
          '' or more elements conforming to the `contains` schema.''))))
       (Some (IsStr (''#'' @ p_make_tag g [Key_MIN_CONTAINS])))"

definition p_badge_max_contains :: "generator \<Rightarrow> error + pydict option" where
  "p_badge_max_contains g =
     p_make_keyword_badge_kwargs g Key_MAX_CONTAINS None None False message_complex_default
       (Some (IsFun (\<lambda>value. Inr (''This array must contain '' @ py_str value @
          '' or less elements conforming to the `contains` schema.''))))
       (Some (IsStr (''#'' @ p_make_tag g [Key_MAX_CONTAINS])))"

definition p_badge_unique_items :: "generator \<Rightarrow> error + pydict option" where
  "p_badge_unique_items g =
     p_make_keyword_badge_kwargs g Key_UNIQUE_ITEMS None None False message_complex_default
       (Some (IsFun (\<lambda>value. Inr (if truthy value then ''All array elements must be unique.'' else ''Array elements do not need to be unique.'')))) None"

definition p_badge_unevaluated_items :: "generator \<Rightarrow> error + pydict option" where
  "p_badge_unevaluated_items g =
     p_make_keyword_badge_kwargs g Key_UNEVALUATED_ITEMS None None True
       (IsFun (\<lambda>value. Inr (JStr ''Defined'')))
       (Some (IsFun (\<lambda>value. Inr
          (case value of
             JBool b \<Rightarrow>
               ''Array elements other than those defined in `items`, `prefixItems`, or `contains` are ''
               @ (if b then [] else ''not '') @ ''allowed.''
           | _ \<Rightarrow>
               ''Array elements other than those defined in `items`, `prefixItems`, or `contains` must conform to a separate schema.''))))
       (Some (IsFun (\<lambda>value.
          case value of
            JDict d \<Rightarrow> JStr (''#'' @ p_make_tag g [Key_UNEVALUATED_ITEMS])
          | _ \<Rightarrow> JNull)))"

definition p_badge_min_properties :: "generator \<Rightarrow> error + pydict option" where
  "p_badge_min_properties g =
     p_make_keyword_badge_kwargs g Key_MIN_PROPERTIES None None False message_complex_default
       (Some (IsFun (\<lambda>value. Inr (''This object must contain '' @ py_str value @ '' or more properties.'')))) None"

definition p_badge_max_properties :: "generator \<Rightarrow> error + pydict option" where
  "p_badge_max_properties g =
     p_make_keyword_badge_kwargs g Key_MAX_PROPERTIES None None False message_complex_default
       (Some (IsFun (\<lambda>value. Inr (''This object must contain '' @ py_str value @ '' or less properties.'')))) None"

definition p_badge_unevaluated_properties :: "generator \<Rightarrow> error + pydict option" where
  "p_badge_unevaluated_properties g =
     p_make_keyword_badge_kwargs g Key_UNEVALUATED_PROPERTIES None None True
       (IsFun (\<lambda>value. Inr (JStr ''Defined'')))
       (Some (IsFun (\<lambda>value. Inr
          (case value of
             JBool b \<Rightarrow>
               ''Unevaluated object properties are '' @ (if b then [] else ''not '') @ ''allowed.''
           | _ \<Rightarrow> ''Unevaluated object properties must conform to a separate schema.''))))
       (Some (IsFun (\<lambda>value.
          case value of
            JDict d \<Rightarrow> JStr (''#'' @ p_make_tag g [Key_UNEVALUATED_PROPERTIES])
          | _ \<Rightarrow> JNull)))"

text \<open>
  The method \<^verbatim>\<open>_badge_default\<close>. On an instance the name \<^verbatim>\<open>_badge_default\<close> is the
  attribute of that name, so the method is written with a suffix here.
\<close>

definition p_badge_default_method :: "generator \<Rightarrow> error + pydict option" where
  "p_badge_default_method g =
     p_make_keyword_badge_kwargs g Key_DEFAULT None (Some (JBool True)) True
       message_complex_default
       (Some (IsStr ''This value has a default.''))
       (Some (IsStr (''#'' @ p_make_tag g [Key_DEFAULT])))"

text \<open>
  The three rules with a computed count pass \<^verbatim>\<open>lambda value: str(len(value))\<close> as the
  message; \<^verbatim>\<open>_make_keyword_badge_kwargs\<close> applies a callable message to \<^verbatim>\<open>title\<close>
  (line 685).
\<close>

definition p_badge_required :: "generator \<Rightarrow> error + pydict option" where
  "p_badge_required g =
     p_make_keyword_badge_kwargs g Key_REQUIRED
       (Some (IsFun (\<lambda>value. bind_e (py_len value) (\<lambda>n. Inr (py_str_int n)))))
       None False message_complex_default
       (Some (IsFun (\<lambda>value. Inr (''This object has '' @ py_str value @ '' required properties.''))))
       (Some (IsStr (''#'' @ p_make_tag g [Key_REQUIRED])))"

fun sum_len :: "json list \<Rightarrow> error + int" where
  "sum_len [] = Inr 0"
| "sum_len (x # xs) =
     bind_e (py_len (PJson x)) (\<lambda>n. bind_e (sum_len xs) (\<lambda>m. Inr (n + m)))"

definition p_badge_dependent_required :: "generator \<Rightarrow> error + pydict option" where
  "p_badge_dependent_required g =
     p_make_keyword_badge_kwargs g Key_DEPENDENT_REQUIRED
       (Some (IsFun (\<lambda>value. bind_e (py_len value) (\<lambda>n. Inr (py_str_int n)))))
       None False message_complex_default
       (Some (IsFun (\<lambda>value.
          case value of
            JDict kvs \<Rightarrow>
              bind_e (sum_len (map snd kvs))
                (\<lambda>n. Inr (''This object has '' @ py_str_int n @
                   '' required properties depending on '' @ py_str_int (int (length kvs)) @
                   '' other properties.''))
          | _ \<Rightarrow> Inl (AttributeError ''values''))))
       (Some (IsStr (''#'' @ p_make_tag g [Key_DEPENDENT_REQUIRED])))"

definition p_badge_const :: "generator \<Rightarrow> error + pydict option" where
  "p_badge_const g =
     p_make_keyword_badge_kwargs g Key_CONST None (Some (JBool True)) False
       message_complex_default
       (Some (IsStr ''This value is a constant.''))
       (Some (IsStr (''#'' @ p_make_tag g [Key_CONST])))"

definition p_badge_pattern :: "generator \<Rightarrow> error + pydict option" where
  "p_badge_pattern g =
     p_make_keyword_badge_kwargs g Key_PATTERN None (Some (JBool True)) False
       message_complex_default
       (Some (IsStr ''This string must match a RegEx pattern.''))
       (Some (IsStr (''#'' @ p_make_tag g [Key_PATTERN])))"

definition p_badge_enum :: "generator \<Rightarrow> error + pydict option" where
  "p_badge_enum g =
     p_make_keyword_badge_kwargs g Key_ENUM None (Some (JBool True)) False
       message_complex_default
       (Some (IsStr ''This value must be equal to one of the enumerated values.''))
       (Some (IsStr (''#'' @ p_make_tag g [Key_ENUM])))"

definition p_badge_content_schema :: "generator \<Rightarrow> error + pydict option" where
  "p_badge_content_schema g =
     p_make_keyword_badge_kwargs g Key_CONTENT_SCHEMA None (Some (JBool True)) False
       message_complex_default
       (Some (IsStr ''This media content has a defined schema.''))
       (Some (IsStr (''#'' @ p_make_tag g [Key_CONTENT_SCHEMA])))"

definition p_badge_prefix_items :: "generator \<Rightarrow> error + pydict option" where
  "p_badge_prefix_items g =
     p_make_keyword_badge_kwargs g Key_PREFIX_ITEMS
       (Some (IsFun (\<lambda>value. bind_e (py_len value) (\<lambda>n. Inr (py_str_int n)))))
       None False message_complex_default
       (Some (IsFun (\<lambda>value. Inr (''The first '' @ py_str value @
          '' elements of this array are individually defined.''))))
       (Some (IsStr (''#'' @ p_make_tag g [Key_PREFIX_ITEMS])))"

text \<open>
  \<^verbatim>\<open>_badge_ref\<close>: no badge for a reference that is missing or false; with a reference
  and no registry, the \<^verbatim>\<open>ValueError\<close>; otherwise the badge of the schema the registry
  gives for the reference.
\<close>

definition p_badge_ref :: "generator \<Rightarrow> error + pydict option" where
  "p_badge_ref g =
     (let ref_id = dict_get (p_schema g) Key_REF in
      if \<not> truthy ref_id then Inr None
      else case p_registry g of
        None \<Rightarrow> Inl (ValueError ''Schema has ref but no registry given.'')
      | Some registry \<Rightarrow>
          bind_e (registry ref_id) (\<lambda>ref_schema.
          bind_e (p_ref_tag_gen g ref_schema) (\<lambda>ref_key.
          bind_e (p_ref_name_gen g ref_schema) (\<lambda>name.
          Inr (Some (p_make_badge_kwargs g Key_REF name []
                 (JStr (''#'' @ p_ref_tag_prefix g @ ''-'' @ to_slug g ref_key))
                 (JStr (''This schema references another schema with ID '' @ [CHR 0x27] @
                    py_str ref_id @ [CHR 0x27] @ ''.''))
                 None))))))"

subsection \<open>Document elements\<close>

text \<open>
  The elements the class builds with the document library \<^verbatim>\<open>mdit\<close>, as constructors:
  \<open>Content\<close> is a value of the schema placed in the document as it is, a block
  container holds its parts with their optional keys and its optional HTML container,
  a tab item its content, title, anchor name and three class lists.
\<close>

datatype mdit =
    Content json
  | Paragraph json string "string list"
  | CodeBlock string string
  | BlockContainer "(string option \<times> mdit) list" "(string \<times> (string \<times> string) list) option"
  | UnorderedList "mdit list"
  | OrderedList "mdit list"
  | TabItem mdit string string "string list" "string list" "string list"
  | TabSet "mdit option list" "string list"

text \<open>The dictionary \<^verbatim>\<open>generate_schema\<close> returns (the key \<^verbatim>\<open>seperator\<close> is the source's).\<close>

record body =
  body_badges :: mdit
  body_seperator :: string
  body_summary :: "mdit option"
  body_tabs :: mdit
  body_description :: "mdit option"

subsection \<open>Tabs\<close>

definition p_make_tab_item :: "generator \<Rightarrow> string \<Rightarrow> mdit \<Rightarrow> string option \<Rightarrow> mdit" where
  "p_make_tab_item g key content title =
     TabItem content
       (case title of
          None \<Rightarrow> p_key_title_gen g key
        | Some t \<Rightarrow> if t \<noteq> [] then t else p_key_title_gen g key)
       (p_make_tag g [key])
       [p_make_class_name g [''tab-item-container'']]
       [p_make_class_name g [''tab-item-content'']]
       [p_make_class_name g [''tab-item-label'']]"

text \<open>
  \<^verbatim>\<open>code_block(content=self._value_code_gen(value).strip(), ...)\<close>: only a string has
  the method \<^verbatim>\<open>strip\<close>.
\<close>

definition value_block :: "generator \<Rightarrow> json \<Rightarrow> error + mdit" where
  "value_block g v =
     bind_e (p_value_code_gen g v) (\<lambda>code.
       case code of
         PJson (JStr s) \<Rightarrow> Inr (CodeBlock (py_strip s) (p_value_code_language g))
       | _ \<Rightarrow> Inl (AttributeError ''strip''))"

definition p_make_tab_item_simple :: "generator \<Rightarrow> string \<Rightarrow> string option \<Rightarrow> error + mdit option" where
  "p_make_tab_item_simple g key title =
     (let value = dict_get (p_schema g) key;
          intro = dict_get (p_schema g) (p_get_title_key g key);
          description = dict_get (p_schema g) (p_get_description_key g key)
      in if \<not> (truthy value \<or> truthy intro \<or> truthy description) then Inr None
         else
           bind_e (if truthy value
                   then bind_e (value_block g value) (\<lambda>b. Inr [(Some ''value'', b)])
                   else Inr [])
             (\<lambda>value_part.
                Inr (Some (p_make_tab_item g key
                  (BlockContainer
                     ((if truthy intro then [(Some ''title'', Content intro)] else []) @
                      (if truthy description then [(Some ''description'', Content description)]
                       else []) @
                      value_part)
                     None)
                  title))))"

text \<open>
  The loop of \<^verbatim>\<open>_make_tab_item_array\<close>: value \<open>i\<close> comes with description \<open>i\<close> while
  there is one. Values and descriptions are lists here; any other shape is \<open>Unmodelled\<close>.
\<close>

fun array_items :: "generator \<Rightarrow> json list \<Rightarrow> json list \<Rightarrow> error + mdit list" where
  "array_items g [] ds = Inr []"
| "array_items g (v # vs) ds =
     bind_e (value_block g v) (\<lambda>block.
     bind_e (array_items g vs (tl ds)) (\<lambda>r.
       Inr ((case ds of
               [] \<Rightarrow> block
             | d # _ \<Rightarrow> BlockContainer [(None, Content d), (None, block)] None) # r)))"

definition p_make_tab_item_array :: "generator \<Rightarrow> string \<Rightarrow> string option \<Rightarrow> error + mdit option" where
  "p_make_tab_item_array g key title =
     (let values = dict_get (p_schema g) key;
          intro = dict_get (p_schema g) (p_get_title_key g key)
      in if \<not> (truthy intro \<or> truthy values) then Inr None
         else
           bind_e (if truthy values
                   then (case (values,
                               dict_get_default (p_schema g) (p_get_description_key g key) (JList []))
                         of (JList vs, JList ds) \<Rightarrow>
                              bind_e (array_items g vs ds) (\<lambda>items. Inr [(None, OrderedList items)])
                          | _ \<Rightarrow> Inl Unmodelled)
                   else Inr [])
             (\<lambda>list_part.
                Inr (Some (p_make_tab_item g key
                  (BlockContainer
                     ((if truthy intro then [(Some ''intro'', Content intro)] else []) @ list_part)
                     None)
                  title))))"

definition tab_const :: "generator \<Rightarrow> error + mdit option" where
  "tab_const g = p_make_tab_item_simple g Key_CONST None"

definition p_tab_pattern :: "generator \<Rightarrow> error + mdit option" where
  "p_tab_pattern g = p_make_tab_item_simple g Key_PATTERN None"

definition p_tab_default :: "generator \<Rightarrow> error + mdit option" where
  "p_tab_default g = p_make_tab_item_simple g Key_DEFAULT None"

definition p_tab_enum :: "generator \<Rightarrow> error + mdit option" where
  "p_tab_enum g = p_make_tab_item_array g Key_ENUM None"

definition p_tab_examples :: "generator \<Rightarrow> error + mdit option" where
  "p_tab_examples g = p_make_tab_item_array g Key_EXAMPLES None"

text \<open>
  \<^verbatim>\<open>_tab_required\<close>. Well-formed values are modelled: \<^verbatim>\<open>required\<close> a list of strings,
  \<^verbatim>\<open>dependentRequired\<close> a dictionary of lists of strings, \<^verbatim>\<open>properties\<close> a
  dictionary; any other shape is \<open>Unmodelled\<close>. The order of strings is the
  lexicographic order of their characters, which is how Python compares them; the
  entries of a dictionary have distinct keys, so sorting them sorts by key.

  \<open>str_list\<close> reads a list of strings. \<open>dependency_loop\<close> is the second loop of the
  method (lines 571 to 588); its link for a dependent that is a property is written
  around \<^verbatim>\<open>dependency_code\<close>, as line 581 has it. \<open>required_tab_item\<close> is the method
  from line 563 to its call of \<^verbatim>\<open>_make_tab_item\<close>: the tab item that call builds.
  The method does not return it: both of its \<^verbatim>\<open>return\<close> statements are bare.
\<close>

fun str_list :: "json list \<Rightarrow> error + string list" where
  "str_list [] = Inr []"
| "str_list (JStr s # xs) = bind_e (str_list xs) (\<lambda>r. Inr (s # r))"
| "str_list (_ # xs) = Inl Unmodelled"

fun dependency_loop :: "generator \<Rightarrow> pydict \<Rightarrow> (string \<times> json) list \<Rightarrow> error + mdit list" where
  "dependency_loop g properties [] = Inr []"
| "dependency_loop g properties ((dependency, dependents) # rest) =
     (case dependents of
        JList xs \<Rightarrow>
          bind_e (str_list xs) (\<lambda>names.
            let dependency_code0 = ''`'' @ dependency @ ''`'';
                dependency_code =
                  (if dict_contains properties dependency
                   then ''['' @ dependency_code0 @ ''](#'' @
                        p_make_tag g [Key_PROPERTIES, dependency] @ '')''
                   else dependency_code0);
                deps_list =
                  map (\<lambda>dependent.
                         if dict_contains properties dependent
                         then ''['' @ dependency_code @ ''](#'' @
                              p_make_tag g [Key_PROPERTIES, dependent] @ '')''
                         else ''`'' @ dependent @ ''`'')
                      names
            in bind_e (dependency_loop g properties rest) (\<lambda>r.
                 Inr (BlockContainer
                        [(None, Content (JStr (''If '' @ dependency_code @ '' is present:''))),
                         (None, UnorderedList (map (\<lambda>c. Content (JStr c)) deps_list))]
                        None # r)))
      | _ \<Rightarrow> Inl Unmodelled)"

definition required_tab_item :: "generator \<Rightarrow> json \<Rightarrow> json \<Rightarrow> error + mdit" where
  "required_tab_item g required dep_required =
     (case (required, dep_required, dict_get_default (p_schema g) Key_PROPERTIES (JDict [])) of
        (JList reqs, JDict deps, JDict properties) \<Rightarrow>
          bind_e (str_list reqs) (\<lambda>names.
            let req_list =
                  map (\<lambda>req.
                         if dict_contains properties req
                         then ''['' @ ''`'' @ req @ ''`'' @ ''](#'' @
                              p_make_tag g [Key_PROPERTIES, req] @ '')''
                         else ''`'' @ req @ ''`'')
                      (sort names)
            in bind_e (dependency_loop g properties (sort_key fst deps)) (\<lambda>blocks.
                 Inr (p_make_tab_item g Key_REQUIRED
                        (UnorderedList (map (\<lambda>c. Content (JStr c)) req_list @ blocks))
                        (Some ''Required Properties''))))
      | _ \<Rightarrow> Inl Unmodelled)"

definition p_tab_required :: "generator \<Rightarrow> error + mdit option" where
  "p_tab_required g =
     (let required = dict_get_default (p_schema g) Key_REQUIRED (JList []);
          dep_required = dict_get_default (p_schema g) Key_DEPENDENT_REQUIRED (JDict [])
      in if \<not> (truthy required \<or> truthy dep_required) then Inr None
         else bind_e (required_tab_item g required dep_required) (\<lambda>tab. Inr None))"

text \<open>
  \<^verbatim>\<open>_tab_jsonschema\<close>: its first statement after the nested \<^verbatim>\<open>def\<close> is
  \<^verbatim>\<open>sanitized_schema = _schemator.sanitize(schema)\<close>. The method has no parameter and
  no local variable \<^verbatim>\<open>schema\<close>, and the module has no global of that name (its globals
  are the imports and the class), so the name lookup fails.
\<close>

definition p_tab_jsonschema :: "generator \<Rightarrow> error + mdit option" where
  "p_tab_jsonschema g = Inl (NameError ''schema'')"

subsection \<open>Dispatch by name\<close>

text \<open>
  \<^verbatim>\<open>_generate_badges\<close> and \<^verbatim>\<open>_generate_tabs\<close> find their rules with \<^verbatim>\<open>hasattr\<close> and
  \<^verbatim>\<open>getattr\<close>. \<open>badge_methods\<close> lists the methods of the class whose names start with
  \<^verbatim>\<open>_badge_\<close>, \<open>tab_methods\<close> those whose names start with \<^verbatim>\<open>tab_\<close>: the class has one.
  \<^verbatim>\<open>getattr\<close> finds an instance attribute before a method of the class, and what it
  finds then is a dictionary, which cannot be called.
\<close>

definition badge_methods :: "(string \<times> (generator \<Rightarrow> error + pydict option)) list" where
  "badge_methods =
     [(''_badge_deprecated'', p_badge_deprecated),
      (''_badge_read_only'', p_badge_read_only),
      (''_badge_write_only'', p_badge_write_only),
      (''_badge_type'', p_badge_type),
      (''_badge_format'', p_badge_format),
      (''_badge_content_media_type'', p_badge_content_media_type),
      (''_badge_content_encoding'', p_badge_content_encoding),
      (''_badge_min_length'', p_badge_min_length),
      (''_badge_max_length'', p_badge_max_length),
      (''_badge_minimum'', p_badge_minimum),
      (''_badge_exclusive_minimum'', p_badge_exclusive_minimum),
      (''_badge_maximum'', p_badge_maximum),
      (''_badge_exclusive_maximum'', p_badge_exclusive_maximum),
      (''_badge_multiple_of'', p_badge_multiple_of),
      (''_badge_min_items'', p_badge_min_items),
      (''_badge_max_items'', p_badge_max_items),
      (''_badge_min_contains'', p_badge_min_contains),
      (''_badge_max_contains'', p_badge_max_contains),
      (''_badge_unique_items'', p_badge_unique_items),
      (''_badge_unevaluated_items'', p_badge_unevaluated_items),
      (''_badge_min_properties'', p_badge_min_properties),
      (''_badge_max_properties'', p_badge_max_properties),
      (''_badge_unevaluated_properties'', p_badge_unevaluated_properties),
      (''_badge_default'', p_badge_default_method),
      (''_badge_required'', p_badge_required),
      (''_badge_dependent_required'', p_badge_dependent_required),
      (''_badge_const'', p_badge_const),
      (''_badge_pattern'', p_badge_pattern),
      (''_badge_enum'', p_badge_enum),
      (''_badge_content_schema'', p_badge_content_schema),
      (''_badge_prefix_items'', p_badge_prefix_items),
      (''_badge_ref'', p_badge_ref)]"

definition tab_methods :: "(string \<times> (generator \<Rightarrow> error + mdit option)) list" where
  "tab_methods = [(''tab_const'', tab_const)]"

datatype 'm attribute = Data | Method 'm

definition getattr_badge :: "string \<Rightarrow> (generator \<Rightarrow> error + pydict option) attribute option" where
  "getattr_badge name =
     (if name \<in> set instance_attributes then Some Data
      else map_option Method (map_of badge_methods name))"

definition getattr_tab :: "string \<Rightarrow> (generator \<Rightarrow> error + mdit option) attribute option" where
  "getattr_tab name =
     (if name \<in> set instance_attributes then Some Data
      else map_option Method (map_of tab_methods name))"

subsection \<open>The badge strip\<close>

text \<open>
  \<^verbatim>\<open>_make_badges\<close> reads \<^verbatim>\<open>self._badges_inline_classes\<close> or
  \<^verbatim>\<open>self._badges_header_classes\<close> for the classes of the strip. Neither is among the
  attributes \<^verbatim>\<open>__init__\<close> assigns, and the class defines no attribute of either name.
\<close>

definition p_make_badges :: "generator \<Rightarrow> pydict list \<Rightarrow> bool \<Rightarrow> error + mdit" where
  "p_make_badges g items inline =
     Inl (AttributeError (if inline then ''_badges_inline_classes'' else ''_badges_header_classes''))"

definition badge_keys :: "string list" where
  "badge_keys =
     [Key_DEPRECATED, Key_READ_ONLY, Key_WRITE_ONLY, Key_TYPE,
      Key_FORMAT, Key_CONTENT_MEDIA_TYPE, Key_CONTENT_ENCODING, Key_MIN_LENGTH, Key_MAX_LENGTH,
      Key_MINIMUM, Key_EXCLUSIVE_MINIMUM, Key_MAXIMUM, Key_EXCLUSIVE_MAXIMUM, Key_MULTIPLE_OF,
      Key_MIN_ITEMS, Key_MAX_ITEMS, Key_MIN_CONTAINS, Key_MAX_CONTAINS, Key_UNIQUE_ITEMS,
      Key_UNEVALUATED_ITEMS,
      Key_MIN_PROPERTIES, Key_MAX_PROPERTIES, Key_UNEVALUATED_PROPERTIES,
      Key_DEFAULT, Key_REQUIRED, Key_DEPENDENT_REQUIRED, Key_CONST, Key_PATTERN, Key_ENUM,
      Key_CONTENT_SCHEMA,
      Key_PREFIX_ITEMS, Key_ITEMS, Key_CONTAINS,
      Key_PROPERTIES, Key_PATTERN_PROPERTIES, Key_ADDITIONAL_PROPERTIES, Key_PROPERTY_NAMES,
      Key_DEPENDENT_SCHEMAS,
      Key_ALL_OF, Key_ONE_OF, Key_ANY_OF, Key_NOT, Key_IF, Key_REF]"

text \<open>The loop of \<^verbatim>\<open>_generate_badges\<close> over the keys, with the badges collected so far.\<close>

fun badge_loop :: "generator \<Rightarrow> string list \<Rightarrow> pydict list \<Rightarrow> error + pydict list" where
  "badge_loop g [] badge_items = Inr badge_items"
| "badge_loop g (key # keys) badge_items =
     (case getattr_badge (''_badge_'' @ camel_to_snake g key) of
        None \<Rightarrow> badge_loop g keys badge_items
      | Some Data \<Rightarrow> Inl TypeError
      | Some (Method m) \<Rightarrow>
          (case m g of
             Inl e \<Rightarrow> Inl e
           | Inr None \<Rightarrow> badge_loop g keys badge_items
           | Inr (Some badge_item) \<Rightarrow>
               badge_loop g keys
                 (if badge_item \<noteq> [] then badge_items @ [badge_item] else badge_items)))"

definition p_generate_badges :: "generator \<Rightarrow> string \<Rightarrow> error + mdit" where
  "p_generate_badges g instance_jsonpath =
     bind_e (badge_loop g badge_keys
               [p_make_badge_kwargs g ''JSONPath'' (JStr instance_jsonpath) ''JSONPath''
                  JNull JNull None])
       (\<lambda>badge_items. p_make_badges g badge_items False)"

subsection \<open>The tab set, the summary and the description\<close>

definition tab_keys :: "string list" where
  "tab_keys =
     [Key_DEFAULT, Key_REQUIRED, Key_DEPENDENT_REQUIRED, Key_CONST, Key_PATTERN, Key_ENUM,
      Key_EXAMPLES]"

text \<open>
  The list comprehension of \<^verbatim>\<open>_generate_tabs\<close>: for each key of the list that the
  schema has, the result of \<^verbatim>\<open>getattr(self, "tab_" + snake)()\<close>, whatever it is.
\<close>

fun tab_loop :: "generator \<Rightarrow> string list \<Rightarrow> error + mdit option list" where
  "tab_loop g [] = Inr []"
| "tab_loop g (key # keys) =
     (if dict_contains (p_schema g) key
      then (case getattr_tab (''tab_'' @ camel_to_snake g key) of
              None \<Rightarrow> Inl (AttributeError (''tab_'' @ camel_to_snake g key))
            | Some Data \<Rightarrow> Inl TypeError
            | Some (Method m) \<Rightarrow>
                bind_e (m g) (\<lambda>tab. bind_e (tab_loop g keys) (\<lambda>r. Inr (tab # r))))
      else tab_loop g keys)"

definition p_generate_tabs :: "generator \<Rightarrow> error + mdit" where
  "p_generate_tabs g =
     bind_e (tab_loop g tab_keys) (\<lambda>tab_items.
     bind_e (p_tab_jsonschema g) (\<lambda>schema_tab.
       Inr (TabSet (tab_items @ [schema_tab]) [p_make_class_name g [''tab-set'']])))"

definition p_generate_summary :: "generator \<Rightarrow> mdit option" where
  "p_generate_summary g =
     (let summary = dict_get (p_schema g) Key_SUMMARY
      in if truthy summary
         then Some (Paragraph summary (p_make_tag g [Key_SUMMARY])
                      [p_make_class_name g [Key_SUMMARY]])
         else None)"

definition p_generate_description :: "generator \<Rightarrow> mdit option" where
  "p_generate_description g =
     (let description = dict_get (p_schema g) Key_DESCRIPTION
      in if truthy description
         then Some (BlockContainer [(None, Content description)]
                      (Some (''div'', [(''class'', p_make_class_name g [Key_DESCRIPTION])])))
         else None)"

subsection \<open>generate\_schema\<close>

text \<open>
  The method stores its four arguments in the instance and builds the body from the
  instance. The result is the body or the exception, with the instance as the call
  leaves it. The summary and the description enter the body when they are true; an
  element of the document library counts as true, so a missing entry of the body is
  the \<open>None\<close> of the rule that builds it.
\<close>

definition generate_schema ::
  "generator \<Rightarrow> pydict \<Rightarrow> string \<Rightarrow> string \<Rightarrow> string \<Rightarrow> (error + body) \<times> generator" where
  "generate_schema self schema schema_jsonpath schema_tag_prefix instance_jsonpath =
     (let g = self\<lparr>p_schema := schema, p_schema_jsonpath := schema_jsonpath,
                   p_schema_tag_prefix := schema_tag_prefix,
                   p_instance_jsonpath := instance_jsonpath\<rparr>
      in (bind_e (p_generate_badges g instance_jsonpath) (\<lambda>badges.
            let summary = p_generate_summary g
            in bind_e (p_generate_tabs g) (\<lambda>tabs.
                 let description = p_generate_description g
                 in Inr \<lparr>body_badges = badges, body_seperator = ''<hr>'',
                         body_summary = summary, body_tabs = tabs,
                         body_description = description\<rparr>)),
          g))"

subsection \<open>A generator with the constructor's defaults\<close>

text \<open>
  The instance \<^verbatim>\<open>DefaultGenerator()\<close> builds when it is given no argument: no registry,
  the default prefixes and suffixes, the default styles, the per-keyword table, the
  header and inline settings with the entries of \<^verbatim>\<open>badges\<close> added, and a value code
  generator that returns a function. The three functions of the string library have
  stand-ins, used where an example needs a closed term: the key title is the keyword
  itself, the slug is the text itself, and \<open>camel_to_snake_standin\<close> writes an upper-case
  letter as an underscore and its lower-case letter and keeps every other character.
\<close>

fun camel_to_snake_standin :: "string \<Rightarrow> string" where
  "camel_to_snake_standin [] = []"
| "camel_to_snake_standin (c # cs) =
     (if CHR ''A'' \<le> c \<and> c \<le> CHR ''Z''
      then CHR ''_'' # char_of ((of_char c :: nat) + 32) # camel_to_snake_standin cs
      else c # camel_to_snake_standin cs)"

definition default_generator :: generator where
  "default_generator =
     \<lparr>p_registry = None,
      p_key_title_gen = (\<lambda>keyword. keyword),
      p_value_code_gen = (\<lambda>value. Inr PFunction),
      p_value_code_language = ''yaml'',
      p_ref_tag_gen =
        (\<lambda>schema. case map_of schema Key_ID of
                     None \<Rightarrow> Inl (KeyError Key_ID)
                   | Some (JStr s) \<Rightarrow> Inr s
                   | Some _ \<Rightarrow> Inl Unmodelled),
      p_ref_name_gen =
        (\<lambda>schema. case map_of schema Key_ID of
                     None \<Rightarrow> Inl (KeyError Key_ID)
                   | Some i \<Rightarrow> Inr (dict_get_default schema ''title'' i)),
      p_keyword_title_prefix = [],
      p_keyword_title_suffix = ''_title'',
      p_keyword_description_prefix = [],
      p_keyword_description_suffix = ''_description'',
      p_class_prefix = ''jsonschema-'',
      p_badge_permissive = [(''color'', JStr ''#00802B'')],
      p_badge_restrictive = [(''color'', JStr ''#AF1F10'')],
      p_ref_tag_prefix = ''jsonschema-ref'',
      p_badges_header_default =
        [(''classes'', JList [JStr ''jsonschema-badge-header'']), (''separator'', JInt 2),
         (''style'', JStr ''flat-square''), (''color'', JStr ''#0B3C75'')],
      p_badges_inline_default =
        [(''classes'', JList [JStr ''jsonschema-badge-inline'']), (''separator'', JInt 2),
         (''style'', JStr ''flat-square''), (''color'', JStr ''#0B3C75'')],
      p_badge_default = badge_default_table,
      p_schema = [],
      p_schema_jsonpath = [],
      p_schema_tag_prefix = [],
      p_instance_jsonpath = [],
      camel_to_snake = camel_to_snake_standin,
      to_slug = (\<lambda>text. text)\<rparr>"

text \<open>
  The configuration of a generator: the instance without what a call stores in it.
\<close>

definition configuration :: "generator \<Rightarrow> generator" where
  "configuration g =
     g\<lparr>p_schema := [], p_schema_jsonpath := [], p_schema_tag_prefix := [],
       p_instance_jsonpath := []\<rparr>"

section \<open>Properties\<close>

subsection \<open>Calls that cannot return\<close>

lemma isl_bind_e: "isl m \<Longrightarrow> isl (bind_e m f)"
  by (cases m) simp_all

lemma isl_bind_e_Inl: "isl (bind_e m (\<lambda>x. Inl (e x)))"
  by (cases m) simp_all

lemma generate_badges_raises: "isl (p_generate_badges g instance_jsonpath)"
  unfolding p_generate_badges_def p_make_badges_def by (rule isl_bind_e_Inl)

lemma generate_tabs_raises: "isl (p_generate_tabs g)"
  unfolding p_generate_tabs_def p_tab_jsonschema_def
  by (cases "tab_loop g tab_keys") simp_all

lemma generate_schema_raises: "isl (fst (generate_schema g s p t i))"
  unfolding generate_schema_def Let_def fst_conv
  by (rule isl_bind_e) (rule generate_badges_raises)

text \<open>
  On the empty schema every badge rule returns no badge, so the badge loop either
  runs through or meets a name that is an instance attribute. Whenever the string
  library leaves the keyword \<^verbatim>\<open>default\<close> as it is, the loop meets the attribute
  \<^verbatim>\<open>_badge_default\<close> and the call of \<^verbatim>\<open>generate_schema\<close> ends in a \<^verbatim>\<open>TypeError\<close>.
\<close>

lemma badge_methods_empty_schema:
  assumes "p_schema g = []" and "(name, m) \<in> set badge_methods"
  shows "m g = Inr None"
  using assms
  by (auto simp: badge_methods_def p_make_keyword_badge_kwargs_def p_badge_ref_def dict_get_def
      p_badge_deprecated_def p_badge_read_only_def p_badge_write_only_def p_badge_type_def
      p_badge_format_def p_badge_content_media_type_def p_badge_content_encoding_def
      p_badge_min_length_def p_badge_max_length_def p_badge_minimum_def
      p_badge_exclusive_minimum_def p_badge_maximum_def p_badge_exclusive_maximum_def
      p_badge_multiple_of_def p_badge_min_items_def p_badge_max_items_def
      p_badge_min_contains_def p_badge_max_contains_def p_badge_unique_items_def
      p_badge_unevaluated_items_def p_badge_min_properties_def p_badge_max_properties_def
      p_badge_unevaluated_properties_def p_badge_default_method_def p_badge_required_def
      p_badge_dependent_required_def p_badge_const_def p_badge_pattern_def p_badge_enum_def
      p_badge_content_schema_def p_badge_prefix_items_def)

lemma getattr_badge_method:
  "getattr_badge name = Some (Method m) \<Longrightarrow> (name, m) \<in> set badge_methods"
  by (auto simp: getattr_badge_def split: if_splits dest: map_of_SomeD)

lemma badge_loop_empty_schema:
  assumes "p_schema g = []"
  shows "badge_loop g keys badge_items = Inl TypeError \<or> badge_loop g keys badge_items = Inr badge_items"
proof (induction keys)
  case Nil
  then show ?case by simp
next
  case (Cons key keys)
  show ?case
  proof (cases "getattr_badge (''_badge_'' @ camel_to_snake g key)")
    case None
    with Cons show ?thesis by simp
  next
    case (Some a)
    show ?thesis
    proof (cases a)
      case Data
      with Some show ?thesis by simp
    next
      case (Method m)
      with Some have "m g = Inr None"
        using badge_methods_empty_schema [OF assms] getattr_badge_method by blast
      with Some Method Cons show ?thesis by simp
    qed
  qed
qed

lemma badge_loop_empty_schema_data:
  assumes "p_schema g = []" and "key \<in> set keys"
    and "getattr_badge (''_badge_'' @ camel_to_snake g key) = Some Data"
  shows "badge_loop g keys badge_items = Inl TypeError"
  using assms(2)
proof (induction keys)
  case Nil
  then show ?case by simp
next
  case (Cons k keys)
  show ?case
  proof (cases "k = key")
    case True
    with assms(3) show ?thesis by simp
  next
    case False
    with Cons have IH: "badge_loop g keys badge_items = Inl TypeError" by simp
    show ?thesis
    proof (cases "getattr_badge (''_badge_'' @ camel_to_snake g k)")
      case None
      with IH show ?thesis by simp
    next
      case (Some a)
      show ?thesis
      proof (cases a)
        case Data
        with Some show ?thesis by simp
      next
        case (Method m)
        with Some have "m g = Inr None"
          using badge_methods_empty_schema [OF assms(1)] getattr_badge_method by blast
        with Some Method IH show ?thesis by simp
      qed
    qed
  qed
qed

lemma generate_schema_empty_schema_TypeError:
  assumes "camel_to_snake g Key_DEFAULT = Key_DEFAULT"
  shows "fst (generate_schema g [] p t i) = Inl TypeError"
proof -
  let ?g = "g\<lparr>p_schema := [], p_schema_jsonpath := p, p_schema_tag_prefix := t,
               p_instance_jsonpath := i\<rparr>"
  have "getattr_badge (''_badge_'' @ camel_to_snake ?g Key_DEFAULT) = Some Data"
    using assms by (simp add: getattr_badge_def instance_attributes_def)
  moreover have "Key_DEFAULT \<in> set badge_keys"
    by (simp add: badge_keys_def)
  ultimately have "badge_loop ?g badge_keys badge_items = Inl TypeError" for badge_items
    using badge_loop_empty_schema_data [of ?g Key_DEFAULT badge_keys badge_items] by simp
  then show ?thesis
    by (simp add: generate_schema_def Let_def p_generate_badges_def)
qed

subsection \<open>The reference badge\<close>

text \<open>
  C10. When the schema has the key \<^verbatim>\<open>$ref\<close> with a value that is false (the empty
  string, \<^verbatim>\<open>null\<close>, \<^verbatim>\<open>false\<close>, zero, an empty list or dictionary), the rule
  \<^verbatim>\<open>_badge_ref\<close> returns no badge and raises nothing, whatever the registry is, so also
  when there is none.
\<close>

theorem badge_ref_falsy_returns_none:
  assumes "map_of (p_schema g) Key_REF = Some v" and "\<not> truthy v"
  shows "p_badge_ref g = Inr None"
  using assms by (simp add: p_badge_ref_def dict_get_def)

theorem badge_ref_falsy_returns_none_witness:
  "map_of (p_schema (default_generator\<lparr>p_schema := [(Key_REF, JStr [])]\<rparr>)) Key_REF = Some (JStr [])
   \<and> \<not> truthy (JStr [])
   \<and> p_registry (default_generator\<lparr>p_schema := [(Key_REF, JStr [])]\<rparr>) = None
   \<and> p_badge_ref (default_generator\<lparr>p_schema := [(Key_REF, JStr [])]\<rparr>) = Inr None"
  using badge_ref_falsy_returns_none
    [of "default_generator\<lparr>p_schema := [(Key_REF, JStr [])]\<rparr>" "JStr []"]
  by (simp add: default_generator_def)

text \<open>
  C2. On a generator without a registry, for a schema whose \<^verbatim>\<open>$ref\<close> value is true
  (a non-empty string, for one), the rule \<^verbatim>\<open>_badge_ref\<close> raises the configuration
  error \<^verbatim>\<open>ValueError("Schema has ref but no registry given.")\<close> and gives no badge.
  The claim as stated, for every schema that has the key, fails where the value is
  false: the rule then returns without an error, and what \<^verbatim>\<open>generate_schema\<close> raises
  is not the configuration error.
\<close>

theorem badge_ref_no_registry_raises:
  assumes "map_of (p_schema g) Key_REF = Some v" and "truthy v" and "p_registry g = None"
  shows "p_badge_ref g = Inl (ValueError ''Schema has ref but no registry given.'')"
  using assms by (simp add: p_badge_ref_def dict_get_def)

theorem badge_ref_no_registry_raises_witness:
  "map_of (p_schema (default_generator\<lparr>p_schema := [(Key_REF, JStr ''urn:x'')]\<rparr>)) Key_REF
     = Some (JStr ''urn:x'')
   \<and> truthy (JStr ''urn:x'')
   \<and> p_registry (default_generator\<lparr>p_schema := [(Key_REF, JStr ''urn:x'')]\<rparr>) = None
   \<and> p_badge_ref (default_generator\<lparr>p_schema := [(Key_REF, JStr ''urn:x'')]\<rparr>)
     = Inl (ValueError ''Schema has ref but no registry given.'')"
  using badge_ref_no_registry_raises
    [of "default_generator\<lparr>p_schema := [(Key_REF, JStr ''urn:x'')]\<rparr>" "JStr ''urn:x''"]
  by (simp add: default_generator_def)

theorem generate_schema_falsy_ref_counterexample:
  "dict_contains [(Key_REF, JStr [])] Key_REF
   \<and> p_registry default_generator = None
   \<and> fst (generate_schema default_generator [(Key_REF, JStr [])] ''$'' ''schema'' ''$'')
       \<noteq> Inl (ValueError ''Schema has ref but no registry given.'')
   \<and> p_badge_ref (default_generator\<lparr>p_schema := [(Key_REF, JStr [])],
        p_schema_jsonpath := ''$'', p_schema_tag_prefix := ''schema'',
        p_instance_jsonpath := ''$''\<rparr>) = Inr None"
  by code_simp

subsection \<open>Keyword badges\<close>

text \<open>
  C3. The rule \<^verbatim>\<open>_badge_maximum\<close> looks for the keyword \<^verbatim>\<open>maxLength\<close>, not
  \<^verbatim>\<open>maximum\<close>: it gives no badge to a schema without \<^verbatim>\<open>maxLength\<close>. A schema with
  \<^verbatim>\<open>maximum\<close> alone gets no badge from it, and a schema with \<^verbatim>\<open>maxLength\<close> alone
  gets a badge that carries the value of \<^verbatim>\<open>maxLength\<close> under the sentence written for
  \<^verbatim>\<open>maximum\<close>.
\<close>

theorem badge_maximum_reads_max_length:
  "(dict_contains (p_schema g) Key_MAX_LENGTH \<or> p_badge_maximum g = Inr None)
   \<and> p_badge_maximum (default_generator\<lparr>p_schema := [(Key_MAXIMUM, JInt 5)]\<rparr>) = Inr None
   \<and> p_badge_maximum (default_generator\<lparr>p_schema := [(Key_MAX_LENGTH, JInt 3)]\<rparr>)
     = Inr (Some [(''label'', JStr ''maxLength''),
                  (''args'', JDict [(''message'', JStr ''3'')]),
                  (''alt'', JStr ''3''),
                  (''link'', JNull),
                  (''title'', JStr ''This value must be smaller than or equal to 3.'')])"
proof -
  have "dict_contains (p_schema g) Key_MAX_LENGTH \<or> p_badge_maximum g = Inr None"
    by (simp add: dict_contains_def p_badge_maximum_def p_make_keyword_badge_kwargs_def
          split: option.splits)
  moreover have
    "p_badge_maximum (default_generator\<lparr>p_schema := [(Key_MAXIMUM, JInt 5)]\<rparr>) = Inr None"
    by code_simp
  moreover have
    "p_badge_maximum (default_generator\<lparr>p_schema := [(Key_MAX_LENGTH, JInt 3)]\<rparr>)
     = Inr (Some [(''label'', JStr ''maxLength''),
                  (''args'', JDict [(''message'', JStr ''3'')]),
                  (''alt'', JStr ''3''),
                  (''link'', JNull),
                  (''title'', JStr ''This value must be smaller than or equal to 3.'')])"
    by code_simp
  ultimately show ?thesis by blast
qed

theorem badge_maximum_reads_max_length_witness:
  "\<not> dict_contains (p_schema (default_generator\<lparr>p_schema := [(Key_MAXIMUM, JInt 5)]\<rparr>))
        Key_MAX_LENGTH
   \<and> dict_contains (p_schema (default_generator\<lparr>p_schema := [(Key_MAXIMUM, JInt 5)]\<rparr>))
        Key_MAXIMUM
   \<and> p_badge_maximum (default_generator\<lparr>p_schema := [(Key_MAXIMUM, JInt 5)]\<rparr>) = Inr None"
  using badge_maximum_reads_max_length
    [of "default_generator\<lparr>p_schema := [(Key_MAXIMUM, JInt 5)]\<rparr>"]
  by (simp add: dict_contains_def)

text \<open>
  C4. The rules for \<^verbatim>\<open>required\<close>, \<^verbatim>\<open>dependentRequired\<close> and \<^verbatim>\<open>prefixItems\<close> raise
  a \<^verbatim>\<open>TypeError\<close> whenever the schema has their keyword, whatever its value: the
  message lambda \<^verbatim>\<open>str(len(value))\<close> is applied to the title lambda, and a function
  has no length. Without the keyword they return no badge.
\<close>

theorem count_badges_raise:
  "p_badge_required g =
     (if dict_contains (p_schema g) Key_REQUIRED then Inl TypeError else Inr None)
   \<and> p_badge_dependent_required g =
     (if dict_contains (p_schema g) Key_DEPENDENT_REQUIRED then Inl TypeError else Inr None)
   \<and> p_badge_prefix_items g =
     (if dict_contains (p_schema g) Key_PREFIX_ITEMS then Inl TypeError else Inr None)"
  by (simp add: p_badge_required_def p_badge_dependent_required_def p_badge_prefix_items_def
        p_make_keyword_badge_kwargs_def dict_contains_def split: option.splits)

text \<open>
  C6. For a boolean \<^verbatim>\<open>deprecated\<close> the rule selects the restrictive style for
  \<^verbatim>\<open>true\<close> and the permissive style for \<^verbatim>\<open>false\<close>; for a boolean
  \<^verbatim>\<open>unevaluatedItems\<close> or \<^verbatim>\<open>unevaluatedProperties\<close> it selects the permissive style
  for \<^verbatim>\<open>true\<close> and the restrictive style for \<^verbatim>\<open>false\<close>. The message is the
  lower-case text of the boolean. The badge is the five entries label, args, alt, link
  and title, with the selected style merged over them and the per-keyword settings of
  that keyword merged over both: an entry the per-keyword settings have wins over the
  style. With the constructor's defaults the per-keyword settings of \<^verbatim>\<open>deprecated\<close>
  set the colour, so the badge of \<^verbatim>\<open>"deprecated": false\<close> has the colour
  \<^verbatim>\<open>#AF1F10\<close> and not the permissive \<^verbatim>\<open>#00802B\<close>.
\<close>

theorem boolean_badge_style:
  "(map_of (p_schema g) Key_DEPRECATED = Some (JBool d) \<longrightarrow>
      p_badge_deprecated g =
        Inr (Some (dict_or
          (dict_or
             [(''label'', JStr (p_key_title_gen g Key_DEPRECATED)),
              (''args'', JDict [(''message'', JStr (if d then ''true'' else ''false''))]),
              (''alt'', JStr (if d then ''true'' else ''false'')),
              (''link'', JNull),
              (''title'', dict_get_default (p_schema g) (p_get_title_key g Key_DEPRECATED)
                 (JStr (''This value is '' @ (if d then [] else ''not '') @ ''deprecated.'')))]
             (if d then p_badge_restrictive g else p_badge_permissive g))
          (case map_of (p_badge_default g) Key_DEPRECATED of None \<Rightarrow> [] | Some c \<Rightarrow> c))))
   \<and> (map_of (p_schema g) Key_UNEVALUATED_ITEMS = Some (JBool i) \<longrightarrow>
      p_badge_unevaluated_items g =
        Inr (Some (dict_or
          (dict_or
             [(''label'', JStr (p_key_title_gen g Key_UNEVALUATED_ITEMS)),
              (''args'', JDict [(''message'', JStr (if i then ''true'' else ''false''))]),
              (''alt'', JStr (if i then ''true'' else ''false'')),
              (''link'', JNull),
              (''title'', dict_get_default (p_schema g) (p_get_title_key g Key_UNEVALUATED_ITEMS)
                 (JStr (''Array elements other than those defined in `items`, `prefixItems`, or `contains` are ''
                        @ (if i then [] else ''not '') @ ''allowed.'')))]
             (if i then p_badge_permissive g else p_badge_restrictive g))
          (case map_of (p_badge_default g) Key_UNEVALUATED_ITEMS of None \<Rightarrow> [] | Some c \<Rightarrow> c))))
   \<and> (map_of (p_schema g) Key_UNEVALUATED_PROPERTIES = Some (JBool u) \<longrightarrow>
      p_badge_unevaluated_properties g =
        Inr (Some (dict_or
          (dict_or
             [(''label'', JStr (p_key_title_gen g Key_UNEVALUATED_PROPERTIES)),
              (''args'', JDict [(''message'', JStr (if u then ''true'' else ''false''))]),
              (''alt'', JStr (if u then ''true'' else ''false'')),
              (''link'', JNull),
              (''title'', dict_get_default (p_schema g) (p_get_title_key g Key_UNEVALUATED_PROPERTIES)
                 (JStr (''Unevaluated object properties are '' @ (if u then [] else ''not '')
                        @ ''allowed.'')))]
             (if u then p_badge_permissive g else p_badge_restrictive g))
          (case map_of (p_badge_default g) Key_UNEVALUATED_PROPERTIES of None \<Rightarrow> [] | Some c \<Rightarrow> c))))"
  by (simp add: p_badge_deprecated_def p_badge_unevaluated_items_def
        p_badge_unevaluated_properties_def p_make_keyword_badge_kwargs_def
        p_make_badge_kwargs_def)

theorem boolean_badge_style_witness:
  "map_of (p_schema (default_generator\<lparr>p_schema := [(Key_DEPRECATED, JBool True), (Key_UNEVALUATED_ITEMS, JBool False), (Key_UNEVALUATED_PROPERTIES, JBool True)]\<rparr>)) Key_DEPRECATED = Some (JBool True)
   \<and> p_badge_deprecated (default_generator\<lparr>p_schema := [(Key_DEPRECATED, JBool True), (Key_UNEVALUATED_ITEMS, JBool False), (Key_UNEVALUATED_PROPERTIES, JBool True)]\<rparr>)
     = Inr (Some [(''label'', JStr ''deprecated''),
                  (''args'', JDict [(''message'', JStr ''true'')]),
                  (''alt'', JStr ''true''),
                  (''link'', JNull),
                  (''title'', JStr ''This value is deprecated.''),
                  (''color'', JStr ''#AF1F10'')])
   \<and> map_of (p_schema (default_generator\<lparr>p_schema := [(Key_DEPRECATED, JBool True), (Key_UNEVALUATED_ITEMS, JBool False), (Key_UNEVALUATED_PROPERTIES, JBool True)]\<rparr>)) Key_UNEVALUATED_ITEMS = Some (JBool False)
   \<and> p_badge_unevaluated_items (default_generator\<lparr>p_schema := [(Key_DEPRECATED, JBool True), (Key_UNEVALUATED_ITEMS, JBool False), (Key_UNEVALUATED_PROPERTIES, JBool True)]\<rparr>)
     = Inr (Some [(''label'', JStr ''unevaluatedItems''),
                  (''args'', JDict [(''message'', JStr ''false'')]),
                  (''alt'', JStr ''false''),
                  (''link'', JNull),
                  (''title'', JStr ''Array elements other than those defined in `items`, `prefixItems`, or `contains` are not allowed.''),
                  (''color'', JStr ''#AF1F10'')])
   \<and> map_of (p_schema (default_generator\<lparr>p_schema := [(Key_DEPRECATED, JBool True), (Key_UNEVALUATED_ITEMS, JBool False), (Key_UNEVALUATED_PROPERTIES, JBool True)]\<rparr>)) Key_UNEVALUATED_PROPERTIES = Some (JBool True)
   \<and> p_badge_unevaluated_properties (default_generator\<lparr>p_schema := [(Key_DEPRECATED, JBool True), (Key_UNEVALUATED_ITEMS, JBool False), (Key_UNEVALUATED_PROPERTIES, JBool True)]\<rparr>)
     = Inr (Some [(''label'', JStr ''unevaluatedProperties''),
                  (''args'', JDict [(''message'', JStr ''true'')]),
                  (''alt'', JStr ''true''),
                  (''link'', JNull),
                  (''title'', JStr ''Unevaluated object properties are allowed.''),
                  (''color'', JStr ''#00802B'')])"
  using boolean_badge_style
    [of "default_generator\<lparr>p_schema := [(Key_DEPRECATED, JBool True),
           (Key_UNEVALUATED_ITEMS, JBool False), (Key_UNEVALUATED_PROPERTIES, JBool True)]\<rparr>"
        True False True]
  by (simp add: default_generator_def badge_default_table_def p_get_title_key_def
        dict_get_default_def)

theorem deprecated_false_color_counterexample:
  "p_badge_deprecated (default_generator\<lparr>p_schema := [(Key_DEPRECATED, JBool False)]\<rparr>)
     = Inr (Some [(''label'', JStr ''deprecated''),
                  (''args'', JDict [(''message'', JStr ''false'')]),
                  (''alt'', JStr ''false''),
                  (''link'', JNull),
                  (''title'', JStr ''This value is not deprecated.''),
                  (''color'', JStr ''#AF1F10'')])
   \<and> p_badge_permissive default_generator = [(''color'', JStr ''#00802B'')]
   \<and> p_badge_restrictive default_generator = [(''color'', JStr ''#AF1F10'')]"
  by code_simp

subsection \<open>Tabs\<close>

text \<open>
  C1. \<^verbatim>\<open>_generate_tabs\<close> never returns a tab set, and \<^verbatim>\<open>generate_schema\<close> never
  returns a body. For a schema with \<^verbatim>\<open>default\<close> the tab rule is looked up under the
  name \<^verbatim>\<open>tab_default\<close>, which the class does not have (its method is
  \<^verbatim>\<open>_tab_default\<close>): an \<^verbatim>\<open>AttributeError\<close>. For a schema with none of the seven
  keywords the raw-schema tab fails on the undefined name \<^verbatim>\<open>schema\<close>. The call of
  \<^verbatim>\<open>generate_schema\<close> on the schema with \<^verbatim>\<open>default\<close> ends in the badge loop, with a
  \<^verbatim>\<open>TypeError\<close>.
\<close>

theorem generate_tabs_never_returns:
  "isl (p_generate_tabs g)
   \<and> isl (fst (generate_schema g s p t i))
   \<and> p_generate_tabs (default_generator\<lparr>p_schema := [(Key_DEFAULT, JInt 1)]\<rparr>)
     = Inl (AttributeError ''tab_default'')
   \<and> p_generate_tabs (default_generator\<lparr>p_schema := []\<rparr>) = Inl (NameError ''schema'')
   \<and> fst (generate_schema default_generator [(Key_DEFAULT, JInt 1)] ''$'' ''schema'' ''$'')
     = Inl TypeError"
proof -
  have "p_generate_tabs (default_generator\<lparr>p_schema := [(Key_DEFAULT, JInt 1)]\<rparr>)
     = Inl (AttributeError ''tab_default'')"
    by code_simp
  moreover have "p_generate_tabs (default_generator\<lparr>p_schema := []\<rparr>) = Inl (NameError ''schema'')"
    by code_simp
  moreover have "fst (generate_schema default_generator [(Key_DEFAULT, JInt 1)] ''$'' ''schema'' ''$'')
     = Inl TypeError"
    by code_simp
  ultimately show ?thesis
    using generate_tabs_raises [of g] generate_schema_raises [of g s p t i] by simp
qed

text \<open>
  C7. \<^verbatim>\<open>_tab_required\<close> never returns a tab. For \<^verbatim>\<open>"required": ["b", "a"]\<close> with
  \<^verbatim>\<open>"properties": {"a": {}}\<close> it builds the tab item the claim describes, \<open>a\<close> before
  \<open>b\<close>, \<open>a\<close> as a link and \<open>b\<close> as inline code, and returns \<^verbatim>\<open>None\<close>.
\<close>

theorem tab_required_returns_no_tab:
  "p_tab_required g \<noteq> Inr (Some tab)
   \<and> p_tab_required
        (default_generator\<lparr>p_schema := [(Key_REQUIRED, JList [JStr ''b'', JStr ''a'']),
                                         (Key_PROPERTIES, JDict [(''a'', JDict [])])],
           p_schema_jsonpath := ''$'', p_schema_tag_prefix := ''schema''\<rparr>) = Inr None
   \<and> required_tab_item
        (default_generator\<lparr>p_schema := [(Key_REQUIRED, JList [JStr ''b'', JStr ''a'']),
                                         (Key_PROPERTIES, JDict [(''a'', JDict [])])],
           p_schema_jsonpath := ''$'', p_schema_tag_prefix := ''schema''\<rparr>)
        (JList [JStr ''b'', JStr ''a'']) (JDict [])
     = Inr (TabItem
              (UnorderedList [Content (JStr ''[`a`](#schema-$-properties-a)''),
                              Content (JStr ''`b`'')])
              ''Required Properties'' ''schema-$-required''
              [''jsonschema-tab-item-container''] [''jsonschema-tab-item-content'']
              [''jsonschema-tab-item-label''])"
proof -
  have "p_tab_required g \<noteq> Inr (Some tab)"
    by (cases "required_tab_item g (dict_get_default (p_schema g) Key_REQUIRED (JList []))
                 (dict_get_default (p_schema g) Key_DEPENDENT_REQUIRED (JDict []))")
       (simp_all add: p_tab_required_def Let_def)
  moreover have "p_tab_required
        (default_generator\<lparr>p_schema := [(Key_REQUIRED, JList [JStr ''b'', JStr ''a'']),
                                         (Key_PROPERTIES, JDict [(''a'', JDict [])])],
           p_schema_jsonpath := ''$'', p_schema_tag_prefix := ''schema''\<rparr>) = Inr None"
    by code_simp
  moreover have "required_tab_item
        (default_generator\<lparr>p_schema := [(Key_REQUIRED, JList [JStr ''b'', JStr ''a'']),
                                         (Key_PROPERTIES, JDict [(''a'', JDict [])])],
           p_schema_jsonpath := ''$'', p_schema_tag_prefix := ''schema''\<rparr>)
        (JList [JStr ''b'', JStr ''a'']) (JDict [])
     = Inr (TabItem
              (UnorderedList [Content (JStr ''[`a`](#schema-$-properties-a)''),
                              Content (JStr ''`b`'')])
              ''Required Properties'' ''schema-$-required''
              [''jsonschema-tab-item-container''] [''jsonschema-tab-item-content'']
              [''jsonschema-tab-item-label''])"
    by code_simp
  ultimately show ?thesis by simp
qed

text \<open>
  In the block of a dependency, the link of a dependent that is a property is written
  around the code of the dependency, not of the dependent.
\<close>

lemma tab_required_dependent_link:
  "required_tab_item
        (default_generator\<lparr>p_schema := [(Key_DEPENDENT_REQUIRED, JDict [(''a'', JList [JStr ''b''])]),
                                         (Key_PROPERTIES, JDict [(''a'', JDict []), (''b'', JDict [])])],
           p_schema_jsonpath := ''$'', p_schema_tag_prefix := ''schema''\<rparr>)
        (JList []) (JDict [(''a'', JList [JStr ''b''])])
     = Inr (TabItem
              (UnorderedList
                 [BlockContainer
                    [(None, Content (JStr ''If [`a`](#schema-$-properties-a) is present:'')),
                     (None, UnorderedList
                        [Content (JStr ''[[`a`](#schema-$-properties-a)](#schema-$-properties-b)'')])]
                    None])
              ''Required Properties'' ''schema-$-required''
              [''jsonschema-tab-item-container''] [''jsonschema-tab-item-content'']
              [''jsonschema-tab-item-label''])"
  by code_simp

subsection \<open>The body\<close>

text \<open>
  C5. For the empty schema, which has no keyword at all, \<^verbatim>\<open>generate_schema\<close> returns
  no body, whatever the generator: it raises. With the default generator the exception
  is the \<^verbatim>\<open>TypeError\<close> of the badge loop, which calls the attribute
  \<^verbatim>\<open>_badge_default\<close>, a dictionary, at the keyword \<^verbatim>\<open>default\<close>. A badge loop that
  ends hands its badges to \<^verbatim>\<open>_make_badges\<close>, which raises an \<^verbatim>\<open>AttributeError\<close>.
\<close>

theorem generate_schema_empty_schema_raises:
  "isl (fst (generate_schema g [] p t i))
   \<and> fst (generate_schema default_generator [] ''$'' ''schema'' ''$'') = Inl TypeError
   \<and> p_make_badges g badge_items False = Inl (AttributeError ''_badges_header_classes'')"
proof -
  have "fst (generate_schema default_generator [] ''$'' ''schema'' ''$'') = Inl TypeError"
    by code_simp
  then show ?thesis
    using generate_schema_raises [of g "[]" p t i] by (simp add: p_make_badges_def)
qed

text \<open>
  C8. The summary block is built if and only if the value of \<^verbatim>\<open>summary\<close> is true, and
  the description block if and only if the value of \<^verbatim>\<open>description\<close> is true: a key
  that is present with the empty string gives no block.
\<close>

theorem summary_description_iff_truthy:
  "(p_generate_summary g \<noteq> None) = truthy (dict_get (p_schema g) Key_SUMMARY)
   \<and> (p_generate_description g \<noteq> None) = truthy (dict_get (p_schema g) Key_DESCRIPTION)"
  by (simp add: p_generate_summary_def p_generate_description_def Let_def)

theorem summary_empty_string_counterexample:
  "dict_contains [(Key_SUMMARY, JStr [])] Key_SUMMARY
   \<and> p_generate_summary (default_generator\<lparr>p_schema := [(Key_SUMMARY, JStr [])]\<rparr>) = None
   \<and> dict_contains [(Key_DESCRIPTION, JStr [])] Key_DESCRIPTION
   \<and> p_generate_description (default_generator\<lparr>p_schema := [(Key_DESCRIPTION, JStr [])]\<rparr>) = None"
  by code_simp

lemma store_arguments_configuration:
  "g\<lparr>p_schema := s, p_schema_jsonpath := p, p_schema_tag_prefix := t, p_instance_jsonpath := i\<rparr>
   = (configuration g)\<lparr>p_schema := s, p_schema_jsonpath := p, p_schema_tag_prefix := t,
        p_instance_jsonpath := i\<rparr>"
  by (simp add: configuration_def)

text \<open>
  C9. The outcome of \<^verbatim>\<open>generate_schema\<close> is a function of its four arguments and
  the configuration: two generators with the same configuration give the same outcome,
  whatever earlier calls left in them. The call changes the instance: afterwards the
  four call-scoped attributes hold the arguments of the call, and nothing else has
  changed.
\<close>

theorem generate_schema_function_of_arguments_and_configuration:
  assumes "configuration g1 = configuration g2"
  shows "fst (generate_schema g1 s p t i) = fst (generate_schema g2 s p t i)
         \<and> snd (generate_schema g1 s p t i)
           = (configuration g1)\<lparr>p_schema := s, p_schema_jsonpath := p,
                p_schema_tag_prefix := t, p_instance_jsonpath := i\<rparr>"
proof -
  let ?store = "\<lambda>g::generator. g\<lparr>p_schema := s, p_schema_jsonpath := p,
                   p_schema_tag_prefix := t, p_instance_jsonpath := i\<rparr>"
  have "?store g1 = ?store (configuration g1)"
    by (rule store_arguments_configuration)
  also have "\<dots> = ?store (configuration g2)"
    by (simp only: assms)
  also have "\<dots> = ?store g2"
    by (rule store_arguments_configuration [symmetric])
  finally have same: "?store g1 = ?store g2" .
  have "fst (generate_schema g1 s p t i) = fst (generate_schema g2 s p t i)"
    unfolding generate_schema_def Let_def fst_conv by (simp only: same)
  moreover have "snd (generate_schema g1 s p t i) = ?store (configuration g1)"
    unfolding generate_schema_def Let_def snd_conv by (rule store_arguments_configuration)
  ultimately show ?thesis by simp
qed

theorem generate_schema_function_of_arguments_and_configuration_witness:
  "configuration default_generator
     = configuration (default_generator\<lparr>p_schema := [(Key_TYPE, JStr ''string'')],
         p_schema_jsonpath := ''$.a'', p_instance_jsonpath := ''$.a''\<rparr>)
   \<and> fst (generate_schema default_generator [(Key_CONST, JInt 1)] ''$'' ''schema'' ''$'')
     = fst (generate_schema
              (default_generator\<lparr>p_schema := [(Key_TYPE, JStr ''string'')],
                 p_schema_jsonpath := ''$.a'', p_instance_jsonpath := ''$.a''\<rparr>)
              [(Key_CONST, JInt 1)] ''$'' ''schema'' ''$'')
   \<and> snd (generate_schema default_generator [(Key_CONST, JInt 1)] ''$'' ''schema'' ''$'')
     = (configuration default_generator)\<lparr>p_schema := [(Key_CONST, JInt 1)],
          p_schema_jsonpath := ''$'', p_schema_tag_prefix := ''schema'',
          p_instance_jsonpath := ''$''\<rparr>"
proof -
  have c: "configuration default_generator
     = configuration (default_generator\<lparr>p_schema := [(Key_TYPE, JStr ''string'')],
         p_schema_jsonpath := ''$.a'', p_instance_jsonpath := ''$.a''\<rparr>)"
    by (simp add: configuration_def)
  show ?thesis
    using c generate_schema_function_of_arguments_and_configuration [OF c]
    by blast
qed

theorem generate_schema_leaves_arguments_counterexample:
  "p_schema default_generator = []
   \<and> p_schema (snd (generate_schema default_generator [(Key_TYPE, JStr ''string'')]
                      ''$'' ''schema'' ''$'')) = [(Key_TYPE, JStr ''string'')]
   \<and> p_instance_jsonpath default_generator = []
   \<and> p_instance_jsonpath (snd (generate_schema default_generator [(Key_TYPE, JStr ''string'')]
                      ''$'' ''schema'' ''$'')) = ''$''"
  by (simp add: generate_schema_def default_generator_def Let_def)

end
